theory Spec2Isabelle
  imports Complex_Main
begin

section \<open>MessagesPage: conversations derived from bookings\<close>

text \<open>
  A shallow embedding of \<^verbatim>\<open>src/pages/MessagesPage.tsx\<close>: the derivation of the
  conversation list inside \<^verbatim>\<open>loadConversations\<close> (lines 43-135), the effect that
  runs and schedules it (lines 41-155), \<^verbatim>\<open>handleSendMessage\<close> (lines 179-184) and
  \<^verbatim>\<open>filteredConversations\<close> (lines 186-189).

  Conventions. A time is the number of milliseconds since the epoch, an \<open>int\<close>
  (the value of \<^verbatim>\<open>getTime()\<close>). An optional field of a JSON record is an
  \<open>option\<close>, \<open>None\<close> standing for \<^verbatim>\<open>undefined\<close>. A thrown exception is a value of
  type \<open>error\<close>. A string is a \<open>char list\<close> whose characters are the code units
  \<open>0\<close> to \<open>255\<close> of a JavaScript string, that is the characters U+0000 to U+00FF
  (Latin-1); \<open>CHR 0xA0\<close> is the no-break space and \<open>CHR 0xC9\<close> the capital E with
  acute. Text with a character beyond U+00FF is outside the model.
\<close>

subsection \<open>Data model\<close>

datatype error = SyntaxError | TypeError | ReferenceError string

datatype msg_type = type_text | type_image | type_file

datatype presence = online | offline | away

text \<open>The interfaces of lines 11-31.\<close>

record message =
  m_id :: string
  senderId :: string
  senderName :: string
  content :: string
  timestamp :: int
  m_type :: msg_type
  read :: bool

record conversation =
  c_id :: string
  patientId :: string
  patientName :: string
  patientEmail :: string
  lastMessage :: string
  lastMessageTime :: int
  unreadCount :: nat
  status :: presence
  messages :: "message list"

text \<open>
  The records read from \<^verbatim>\<open>localStorage\<close> (typed \<^verbatim>\<open>any\<close> in the source), with the
  fields the code reads. The two date fields hold the time value that
  \<^verbatim>\<open>new Date(field).getTime()\<close> gives for the stored date string. A booking record
  has a creation time, an appointment date or both: \<open>b_createdAt\<close> is \<open>None\<close> when the
  creation time is absent or empty, and \<open>b_date\<close> is the appointment date, which the
  code reads only when there is no creation time (for a record that has only a
  creation time its value is never read). A record with neither time is outside the
  model.
\<close>

record booking =
  b_patientId :: string
  b_patientName :: string
  b_patientEmail :: "string option"
  b_therapistName :: "string option"
  b_therapistId :: "string option"
  b_status :: string
  b_createdAt :: "int option"
  b_date :: int

record registered_user =
  u_id :: string
  u_email :: "string option"

text \<open>The \<^verbatim>\<open>user\<close> of \<^verbatim>\<open>useAuth()\<close>; the component receives \<open>None\<close> when it is null.\<close>

record auth_user =
  a_id :: string
  a_name :: string

text \<open>
  One key of \<^verbatim>\<open>localStorage\<close> as \<^verbatim>\<open>JSON.parse(localStorage.getItem(key) || '[]')\<close>
  sees it: no text (null or the empty string), a text that \<^verbatim>\<open>JSON.parse\<close> rejects,
  or the text of an array of records.
\<close>

datatype 'a item = Absent | Unparsable | Parsed "'a list"

record storage =
  mindcare_bookings :: "booking item"
  mindcare_registered_users :: "registered_user item"

text \<open>The component state of lines 36-39.\<close>

record page =
  selectedConversation :: "string option"
  messageText :: string
  searchTerm :: string
  conversations :: "conversation list"

text \<open>
  What the effect of lines 41-155 registers with the host: the interval (its period
  in milliseconds), the events \<^verbatim>\<open>handleStorageChange\<close> listens to, and whether the
  cleanup function of lines 150-154 has been handed to React.
\<close>

record runtime =
  rt_page :: page
  interval :: "nat option"
  listeners :: "string list"
  cleanup :: bool

subsection \<open>JavaScript primitives\<close>

text \<open>\<^verbatim>\<open>x || d\<close> on an optional string: \<^verbatim>\<open>undefined\<close> and \<^verbatim>\<open>''\<close> are falsy.\<close>

definition or_else :: "string option \<Rightarrow> string \<Rightarrow> string" where
  "or_else x d = (case x of None \<Rightarrow> d | Some s \<Rightarrow> if s = [] then d else s)"





text \<open>
  \<^verbatim>\<open>String.prototype.trim\<close> removes white space and line terminators from both ends.
  Among the characters U+0000 to U+00FF these are tab, LF, VT, FF, CR, space and the
  no-break space U+00A0.
\<close>

definition isWhiteSpace :: "char \<Rightarrow> bool" where
  "isWhiteSpace c = ((of_char c :: nat) \<in> {9, 10, 11, 12, 13, 32, 160})"

definition trim :: "string \<Rightarrow> string" where
  "trim s = rev (dropWhile isWhiteSpace (rev (dropWhile isWhiteSpace s)))"

text \<open>\<^verbatim>\<open>Array.prototype.forEach\<close> with a body that may throw: the first exception ends the loop.\<close>

fun forEach :: "('s \<Rightarrow> 'a \<Rightarrow> error + 's) \<Rightarrow> 's \<Rightarrow> 'a list \<Rightarrow> error + 's" where
  "forEach f s [] = Inr s"
| "forEach f s (x # xs) = (case f s x of Inl e \<Rightarrow> Inl e | Inr s' \<Rightarrow> forEach f s' xs)"

subsection \<open>loadConversations\<close>

text \<open>Lines 44-45: \<^verbatim>\<open>JSON.parse(localStorage.getItem(key) || '[]')\<close>.\<close>

definition parse_item :: "'a item \<Rightarrow> error + 'a list" where
  "parse_item it = (case it of Absent \<Rightarrow> Inr [] | Unparsable \<Rightarrow> Inl SyntaxError | Parsed v \<Rightarrow> Inr v)"

text \<open>
  Lines 48-50. \<^verbatim>\<open>user?.name\<close> is \<^verbatim>\<open>undefined\<close> when \<^verbatim>\<open>user\<close> is null, and \<^verbatim>\<open>===\<close>
  holds between two \<^verbatim>\<open>undefined\<close>s.
\<close>

definition therapistBookings :: "auth_user option \<Rightarrow> booking list \<Rightarrow> booking list" where
  "therapistBookings user allBookings =
     filter (\<lambda>booking. b_therapistName booking = map_option a_name user
                      \<or> b_therapistId booking = map_option a_id user) allBookings"

text \<open>\<^verbatim>\<open>new Date(b.createdAt || b.date).getTime()\<close> of lines 63 and 80.\<close>

definition refTime :: "booking \<Rightarrow> int" where
  "refTime b = (case b_createdAt b of Some t \<Rightarrow> t | None \<Rightarrow> b_date b)"

text \<open>The comparator of lines 62-63: the time of \<open>b\<close> minus the time of \<open>a\<close>.\<close>

definition compareBookings :: "booking \<Rightarrow> booking \<Rightarrow> int" where
  "compareBookings a b = refTime b - refTime a"

text \<open>
  \<^verbatim>\<open>Array.prototype.sort\<close> with this comparator (line 62). The comparator is the
  difference of two times, a consistent comparison function, and for such a function
  the language prescribes a stable sort: \<open>x\<close> stays before \<open>y\<close> unless the comparator
  is positive on \<open>(x, y)\<close>. That result is unique; it is computed here by insertion.
\<close>

fun sort_insert :: "booking \<Rightarrow> booking list \<Rightarrow> booking list" where
  "sort_insert x [] = [x]"
| "sort_insert x (y # ys) =
     (if compareBookings x y \<le> 0 then x # y # ys else y # sort_insert x ys)"

fun sort_js :: "booking list \<Rightarrow> booking list" where
  "sort_js [] = []"
| "sort_js (x # xs) = sort_insert x (sort_js xs)"

text \<open>Line 61.\<close>

definition patientBookings :: "booking list \<Rightarrow> string \<Rightarrow> booking list" where
  "patientBookings tb pid = filter (\<lambda>b. b_patientId b = pid) tb"

text \<open>Lines 62-64; \<open>None\<close> is the \<^verbatim>\<open>undefined\<close> that \<^verbatim>\<open>[0]\<close> reads from an empty array.\<close>

definition latestBooking :: "booking list \<Rightarrow> string \<Rightarrow> booking option" where
  "latestBooking tb pid =
     (case sort_js (patientBookings tb pid) of [] \<Rightarrow> None | b # _ \<Rightarrow> Some b)"

text \<open>Lines 67-77: the final values of \<^verbatim>\<open>lastMessage\<close> and \<^verbatim>\<open>unreadCount\<close>.\<close>

definition lastMessage_unreadCount :: "booking \<Rightarrow> string \<times> nat" where
  "lastMessage_unreadCount latest =
     (if b_status latest = ''completed''
        then (''Thank you for the session today. I feel much better.'', 0)
      else if b_status latest = ''pending_confirmation''
        then (''I just booked an appointment. Can you confirm the time?'', 1)
      else if b_status latest = ''confirmed''
        then (''See you at our scheduled appointment.'', 0)
      else (''Looking forward to our session.'', 0))"

text \<open>
  Lines 80-85, \<open>now\<close> being the value of \<^verbatim>\<open>new Date().getTime()\<close>. The quotient is
  a \<open>real\<close>: for integer milliseconds the double that JavaScript computes lies on the
  same side of \<open>2\<close> and of \<open>24\<close>.
\<close>

definition timeSinceBooking :: "int \<Rightarrow> booking \<Rightarrow> int" where
  "timeSinceBooking now latest = now - refTime latest"

definition hoursAgo :: "int \<Rightarrow> booking \<Rightarrow> real" where
  "hoursAgo now latest = real_of_int (timeSinceBooking now latest) / (1000 * 60 * 60)"

definition status_at :: "int \<Rightarrow> booking \<Rightarrow> presence" where
  "status_at now latest =
     (if hoursAgo now latest < 2 then online
      else if hoursAgo now latest < 24 then away
      else offline)"

text \<open>
  Lines 66-128 for one booking whose patient has no conversation yet. The clock is
  read five times, at lines 80, 94, 103, 112 and 124: \<open>clock k\<close> is the \<open>k\<close>-th value
  the clock returns during the pass, and \<open>n\<close> counts the reads made so far.
\<close>

definition newConversation ::
  "auth_user option \<Rightarrow> registered_user list \<Rightarrow> (nat \<Rightarrow> int) \<Rightarrow> nat \<Rightarrow> booking \<Rightarrow> booking
     \<Rightarrow> conversation" where
  "newConversation user registeredUsers clock n booking latest =
     (let pid = b_patientId booking;
          patientUser = find (\<lambda>u. u_id u = pid) registeredUsers;
          (lastMsg, unread) = lastMessage_unreadCount latest;
          st = status_at (clock n) latest;
          msgs =
            [\<lparr>m_id = ''m_'' @ pid @ ''_1'',
              senderId = pid,
              senderName = b_patientName booking,
              content = ''Hi '' @ (case user of None \<Rightarrow> ''undefined'' | Some u \<Rightarrow> a_name u)
                          @ '', I wanted to follow up on our session.'',
              timestamp = clock (n + 1) - 4 * 60 * 60 * 1000,
              m_type = type_text,
              read = True\<rparr>,
             \<lparr>m_id = ''m_'' @ pid @ ''_2'',
              senderId = or_else (map_option a_id user) ''therapist'',
              senderName = or_else (map_option a_name user) ''Therapist'',
              content = ''Hello '' @ b_patientName booking
                          @ ''! I'' @ [CHR 0x27] @ ''m glad you reached out. How are you feeling today?'',
              timestamp = clock (n + 2) - 3 * 60 * 60 * 1000,
              m_type = type_text,
              read = True\<rparr>,
             \<lparr>m_id = ''m_'' @ pid @ ''_3'',
              senderId = pid,
              senderName = b_patientName booking,
              content = lastMsg,
              timestamp = clock (n + 3) - 2 * 60 * 60 * 1000,
              m_type = type_text,
              read = (unread = 0)\<rparr>]
      in \<lparr>c_id = pid,
          patientId = pid,
          patientName = b_patientName booking,
          patientEmail =
            or_else (b_patientEmail booking)
              (or_else (case patientUser of None \<Rightarrow> None | Some u \<Rightarrow> u_email u)
                 ''patient@example.com''),
          lastMessage = lastMsg,
          lastMessageTime = clock (n + 4) - 2 * 60 * 60 * 1000,
          unreadCount = unread,
          status = st,
          messages = msgs\<rparr>)"

text \<open>
  The body of the \<^verbatim>\<open>forEach\<close> of lines 55-132. \<^verbatim>\<open>patientMap\<close> is a \<^verbatim>\<open>Map\<close>, kept here
  as the list of its entries in insertion order: a key is only ever set when the map
  does not have it, so \<^verbatim>\<open>set\<close> appends. Reading \<^verbatim>\<open>latestBooking.status\<close> of an
  \<^verbatim>\<open>undefined\<close> booking (line 70) throws a TypeError.
\<close>

definition forEach_body ::
  "auth_user option \<Rightarrow> registered_user list \<Rightarrow> booking list \<Rightarrow> (nat \<Rightarrow> int)
     \<Rightarrow> (string \<times> conversation) list \<times> nat \<Rightarrow> booking
     \<Rightarrow> error + ((string \<times> conversation) list \<times> nat)" where
  "forEach_body user registeredUsers tb clock s booking =
     (case s of (patientMap, n) \<Rightarrow>
        if b_patientId booking \<in> set (map fst patientMap) then Inr (patientMap, n)
        else (case latestBooking tb (b_patientId booking) of
                None \<Rightarrow> Inl TypeError
              | Some latest \<Rightarrow>
                  Inr (patientMap @
                         [(b_patientId booking,
                           newConversation user registeredUsers clock n booking latest)],
                       n + 5)))"

text \<open>Lines 48-132: the entries of \<^verbatim>\<open>patientMap\<close> after the loop.\<close>

definition patientMap ::
  "auth_user option \<Rightarrow> registered_user list \<Rightarrow> booking list \<Rightarrow> (nat \<Rightarrow> int)
     \<Rightarrow> error + (string \<times> conversation) list" where
  "patientMap user registeredUsers allBookings clock =
     (let tb = therapistBookings user allBookings
      in case forEach (forEach_body user registeredUsers tb clock) ([], 0) tb of
           Inl e \<Rightarrow> Inl e
         | Inr (pm, n) \<Rightarrow> Inr pm)"

text \<open>
  Lines 43-135. The result is the exception thrown, if any, and the component state:
  \<^verbatim>\<open>setConversations\<close> (line 134) is the last statement, so a pass that throws
  leaves the state as it was.
\<close>

definition loadConversations ::
  "storage \<Rightarrow> auth_user option \<Rightarrow> (nat \<Rightarrow> int) \<Rightarrow> page \<Rightarrow> error option \<times> page" where
  "loadConversations st user clock pg =
     (case parse_item (mindcare_bookings st) of
        Inl e \<Rightarrow> (Some e, pg)
      | Inr allBookings \<Rightarrow>
          (case parse_item (mindcare_registered_users st) of
             Inl e \<Rightarrow> (Some e, pg)
           | Inr registeredUsers \<Rightarrow>
               (case patientMap user registeredUsers allBookings clock of
                  Inl e \<Rightarrow> (Some e, pg)
                | Inr pm \<Rightarrow> (None, pg\<lparr>conversations := map snd pm\<rparr>))))"

subsection \<open>The effect and its triggers\<close>

text \<open>
  The callback given to \<^verbatim>\<open>useEffect\<close> (lines 41-155): one pass (line 137), then the
  interval of 10000 ms (line 140), the two listeners (lines 147-148) and the cleanup
  function handed back to React (line 150). An exception thrown by the pass leaves the
  callback at line 137, before anything is registered.
\<close>

definition effect ::
  "storage \<Rightarrow> auth_user option \<Rightarrow> (nat \<Rightarrow> int) \<Rightarrow> runtime \<Rightarrow> error option \<times> runtime" where
  "effect st user clock rt =
     (case loadConversations st user clock (rt_page rt) of
        (Some e, pg) \<Rightarrow> (Some e, rt\<lparr>rt_page := pg\<rparr>)
      | (None, pg) \<Rightarrow>
          (None, rt\<lparr>rt_page := pg,
                    interval := Some 10000,
                    listeners := listeners rt @ [''storage'', ''mindcare-data-updated''],
                    cleanup := True\<rparr>))"

text \<open>
  A firing of the interval, whose callback is \<^verbatim>\<open>loadConversations\<close> itself, and
  \<^verbatim>\<open>handleStorageChange\<close> (lines 143-145), the listener of both events. Neither
  touches the registrations; an exception leaves them as an uncaught exception of the
  callback, returned here as the first component.
\<close>

definition interval_callback ::
  "storage \<Rightarrow> auth_user option \<Rightarrow> (nat \<Rightarrow> int) \<Rightarrow> runtime \<Rightarrow> error option \<times> runtime" where
  "interval_callback st user clock rt =
     (case loadConversations st user clock (rt_page rt) of (e, pg) \<Rightarrow> (e, rt\<lparr>rt_page := pg\<rparr>))"

definition handleStorageChange ::
  "storage \<Rightarrow> auth_user option \<Rightarrow> (nat \<Rightarrow> int) \<Rightarrow> runtime \<Rightarrow> error option \<times> runtime" where
  "handleStorageChange st user clock rt =
     (case loadConversations st user clock (rt_page rt) of (e, pg) \<Rightarrow> (e, rt\<lparr>rt_page := pg\<rparr>))"

subsection \<open>Rendering the component\<close>

text \<open>
  The identifiers the module binds: the imports of lines 1-9 and the function
  declared at line 33; and the globals of the host that the file uses.
\<close>

definition module_scope :: "string list" where
  "module_scope =
     [''React'', ''useState'', ''motion'',
      ''MessageSquare'', ''Send'', ''Search'', ''User'', ''Phone'', ''Video'',
      ''Paperclip'', ''Smile'', ''MoreVertical'', ''Archive'', ''Star'',
      ''Clock'', ''CheckCircle'', ''AlertCircle'',
      ''useAuth'', ''useTheme'', ''MessagesPage'']"

definition host_globals :: "string list" where
  "host_globals =
     [''JSON'', ''localStorage'', ''Map'', ''Date'', ''Array'', ''Math'',
      ''setInterval'', ''clearInterval'', ''window'']"

text \<open>Reading an identifier that nothing binds throws a ReferenceError.\<close>

definition resolve :: "string \<Rightarrow> error option" where
  "resolve x =
     (if x \<in> set module_scope \<or> x \<in> set host_globals then None else Some (ReferenceError x))"

fun first_unresolved :: "string list \<Rightarrow> error option" where
  "first_unresolved [] = None"
| "first_unresolved (x # xs) =
     (case resolve x of Some e \<Rightarrow> Some e | None \<Rightarrow> first_unresolved xs)"

text \<open>The functions the body of \<^verbatim>\<open>MessagesPage\<close> calls, in order, at lines 34-41.\<close>

definition hook_calls :: "string list" where
  "hook_calls =
     [''useAuth'', ''useTheme'', ''useState'', ''useState'', ''useState'', ''useState'',
      ''useEffect'']"

text \<open>The state of a component that has just been created (lines 36-39).\<close>

definition initial_runtime :: runtime where
  "initial_runtime =
     \<lparr>rt_page = \<lparr>selectedConversation = None, messageText = [], searchTerm = [],
                 conversations = []\<rparr>,
      interval = None, listeners = [], cleanup = False\<rparr>"

text \<open>
  The first render of the component and, when the render completes, its effect.
  \<open>user\<close> is what \<^verbatim>\<open>useAuth()\<close> returns; the hooks that the module imports are
  taken to return normally.
\<close>

definition MessagesPage ::
  "storage \<Rightarrow> auth_user option \<Rightarrow> (nat \<Rightarrow> int) \<Rightarrow> error option \<times> runtime" where
  "MessagesPage st user clock =
     (case first_unresolved hook_calls of
        Some e \<Rightarrow> (Some e, initial_runtime)
      | None \<Rightarrow> effect st user clock initial_runtime)"

subsection \<open>Sending and searching\<close>

text \<open>
  Lines 179-184. The function returns nothing; the first component is the exception
  it throws, which is none on every path. \<^verbatim>\<open>!selectedConversation\<close> holds for null
  and for the empty string.
\<close>

definition handleSendMessage :: "page \<Rightarrow> error option \<times> page" where
  "handleSendMessage pg =
     (if trim (messageText pg) = [] \<or> or_else (selectedConversation pg) [] = []
      then (None, pg)
      else (None, pg\<lparr>messageText := []\<rparr>))"


subsection \<open>Notions used to state the properties\<close>

text \<open>
  The bookings of a list that are the first of their patient, in the order of the
  list; \<open>seen\<close> holds the patients met before.
\<close>

fun firsts :: "string list \<Rightarrow> booking list \<Rightarrow> booking list" where
  "firsts seen [] = []"
| "firsts seen (b # bs) =
     (if b_patientId b \<in> set seen then firsts seen bs
      else b # firsts (seen @ [b_patientId b]) bs)"

text \<open>
  The conversation that the loop builds for booking \<open>b\<close> when \<open>n\<close> clock reads have
  been made, the latest booking of the patient being the one of lines 61-64.
\<close>

definition conv_of ::
  "auth_user option \<Rightarrow> registered_user list \<Rightarrow> booking list \<Rightarrow> (nat \<Rightarrow> int) \<Rightarrow> nat \<Rightarrow> booking
     \<Rightarrow> conversation" where
  "conv_of user registeredUsers tb clock n b =
     newConversation user registeredUsers clock n b
       (case latestBooking tb (b_patientId b) of Some l \<Rightarrow> l | None \<Rightarrow> b)"

text \<open>
  The conversations of one pass, in the order of the map: one for each first booking
  among those of the therapist, the \<open>i\<close>-th built after \<open>5 * i\<close> clock reads.
\<close>

definition derived ::
  "auth_user option \<Rightarrow> registered_user list \<Rightarrow> booking list \<Rightarrow> (nat \<Rightarrow> int)
     \<Rightarrow> conversation list" where
  "derived user registeredUsers allBookings clock =
     (let tb = therapistBookings user allBookings
      in map (\<lambda>(i, b). conv_of user registeredUsers tb clock (5 * i) b)
           (enumerate 0 (firsts [] tb)))"




subsection \<open>Example inputs\<close>

definition steady_clock :: "int \<Rightarrow> nat \<Rightarrow> int" where
  "steady_clock t k = t"

definition ticking_clock :: "int \<Rightarrow> nat \<Rightarrow> int" where
  "ticking_clock t k = t + int k"

definition example_user :: auth_user where
  "example_user = \<lparr>a_id = ''t1'', a_name = ''Dr.A''\<rparr>"

definition example_booking :: "string \<Rightarrow> string \<Rightarrow> string \<Rightarrow> int \<Rightarrow> booking" where
  "example_booking pid name st created =
     \<lparr>b_patientId = pid, b_patientName = name, b_patientEmail = None,
      b_therapistName = Some ''Dr.A'', b_therapistId = Some ''t1'',
      b_status = st, b_createdAt = Some created, b_date = created\<rparr>"

definition example_storage :: "booking list \<Rightarrow> storage" where
  "example_storage bs = \<lparr>mindcare_bookings = Parsed bs, mindcare_registered_users = Parsed []\<rparr>"

definition example_conversation :: conversation where
  "example_conversation =
     \<lparr>c_id = ''P1'', patientId = ''P1'', patientName = ''Ann'',
      patientEmail = ''ann@example.com'',
      lastMessage = ''See you at our scheduled appointment.'', lastMessageTime = 0,
      unreadCount = 0, status = online, messages = []\<rparr>"

definition example_page :: "string \<Rightarrow> page" where
  "example_page txt =
     \<lparr>selectedConversation = Some ''P1'', messageText = txt, searchTerm = [],
      conversations = [example_conversation]\<rparr>"

definition example_bookings :: "booking list" where
  "example_bookings =
     [example_booking ''P1'' ''Ann'' ''confirmed'' 100,
      example_booking ''P2'' ''Bob'' ''completed'' 150,
      example_booking ''P1'' ''Anna'' ''pending_confirmation'' 200]"


text \<open>The conversations of a pass over \<open>example_bookings\<close>, with no registered user.\<close>

definition example_pass :: "(nat \<Rightarrow> int) \<Rightarrow> conversation list" where
  "example_pass clock =
     conversations (snd (loadConversations
        \<lparr>mindcare_bookings = Parsed example_bookings, mindcare_registered_users = Parsed []\<rparr>
        (Some example_user) clock (example_page [])))"

section \<open>Properties\<close>

subsection \<open>Sending\<close>

lemma trim_empty_iff: "trim s = [] \<longleftrightarrow> (\<forall>c\<in>set s. isWhiteSpace c)"
proof -
  have "(\<forall>c\<in>set (dropWhile isWhiteSpace s). isWhiteSpace c) \<longleftrightarrow> (\<forall>c\<in>set s. isWhiteSpace c)"
    by (induction s) auto
  then show ?thesis by (simp add: trim_def dropWhile_eq_Nil_conv)
qed

text \<open>
  C1, as the claim states it, fails: a send with text that is not blank, in a page
  where conversation \<open>P1\<close> exists and is selected, leaves the conversations as they
  were; the message sequence of \<open>P1\<close> is still empty.
\<close>

theorem send_appends_counterexample:
  "trim (messageText (example_page ''hello'')) \<noteq> []
   \<and> selectedConversation (example_page ''hello'') = Some (c_id example_conversation)
   \<and> conversations (snd (handleSendMessage (example_page ''hello'')))
       = conversations (example_page ''hello'')
   \<and> map messages (conversations (snd (handleSendMessage (example_page ''hello'')))) = [[]]"
  by (simp add: handleSendMessage_def example_page_def trim_def isWhiteSpace_def or_else_def
        example_conversation_def)

text \<open>
  C1, amended: a send with text that is not empty after trimming, while a
  conversation is selected, throws nothing, clears the message text and changes
  nothing else; every conversation keeps its message sequence, its
  \<open>lastMessage\<close> and its \<open>lastMessageTime\<close>.
\<close>

theorem send_only_clears_text:
  assumes "trim (messageText pg) \<noteq> []"
    and "selectedConversation pg = Some cid"
    and "cid \<noteq> []"
  shows "handleSendMessage pg = (None, pg\<lparr>messageText := []\<rparr>)
       \<and> conversations (snd (handleSendMessage pg)) = conversations pg"
  using assms by (simp add: handleSendMessage_def or_else_def)

theorem send_only_clears_text_witness:
  "handleSendMessage (example_page ''hello'') = (None, (example_page ''hello'')\<lparr>messageText := []\<rparr>)
   \<and> conversations (snd (handleSendMessage (example_page ''hello'')))
       = conversations (example_page ''hello'')"
proof -
  have a: "trim (messageText (example_page ''hello'')) \<noteq> []"
    by (simp add: example_page_def trim_def isWhiteSpace_def)
  have b: "selectedConversation (example_page ''hello'') = Some ''P1''"
    by (simp add: example_page_def)
  have c: "''P1'' \<noteq> []" by simp
  show ?thesis using send_only_clears_text [OF a b c] .
qed

text \<open>
  C2, as the claim states it, fails: a send with text of three spaces returns
  normally; no error of any kind reaches the caller.
\<close>

theorem blank_send_counterexample:
  "trim (messageText (example_page ''   '')) = []
   \<and> fst (handleSendMessage (example_page ''   '')) = None"
  by (simp add: handleSendMessage_def example_page_def trim_def isWhiteSpace_def)

text \<open>
  C2, amended: a send with text that is empty or only white space returns normally,
  without an error, and leaves the whole component state unchanged, the message
  sequence of every conversation included.
\<close>

theorem blank_send_is_silent:
  assumes "\<forall>c\<in>set (messageText pg). isWhiteSpace c"
  shows "handleSendMessage pg = (None, pg)"
  using assms by (simp add: handleSendMessage_def trim_empty_iff)

theorem blank_send_is_silent_witness:
  "handleSendMessage (example_page ''   '') = (None, example_page ''   '')"
proof -
  have a: "\<forall>c\<in>set (messageText (example_page ''   '')). isWhiteSpace c"
    by (simp add: example_page_def isWhiteSpace_def)
  show ?thesis using blank_send_is_silent [OF a] .
qed

subsection \<open>Presence\<close>

text \<open>
  C5: for a booking with reference time \<open>t\<close> and a clock value \<open>now \<ge> t\<close>, the status
  is online exactly when the elapsed time is under two hours, away exactly when it is
  at least two hours and under twenty-four, offline exactly when it is at least
  twenty-four hours; at exactly two hours it is away, at exactly twenty-four offline.
\<close>

theorem presence_buckets:
  assumes "refTime latest = t" and "t \<le> now"
  shows "(status_at now latest = online \<longleftrightarrow> now - t < 2 * (1000 * 60 * 60))
       \<and> (status_at now latest = away
            \<longleftrightarrow> 2 * (1000 * 60 * 60) \<le> now - t \<and> now - t < 24 * (1000 * 60 * 60))
       \<and> (status_at now latest = offline \<longleftrightarrow> 24 * (1000 * 60 * 60) \<le> now - t)
       \<and> (now - t = 2 * (1000 * 60 * 60) \<longrightarrow> status_at now latest = away)
       \<and> (now - t = 24 * (1000 * 60 * 60) \<longrightarrow> status_at now latest = offline)"
  using assms by (auto simp: status_at_def hoursAgo_def timeSinceBooking_def field_simps)

theorem presence_buckets_witness:
  "status_at 7200000 (example_booking ''P1'' ''Ann'' ''confirmed'' 0) = away
   \<and> status_at 7199999 (example_booking ''P1'' ''Ann'' ''confirmed'' 0) = online
   \<and> status_at 86400000 (example_booking ''P1'' ''Ann'' ''confirmed'' 0) = offline"
proof -
  have a: "refTime (example_booking ''P1'' ''Ann'' ''confirmed'' 0) = 0"
    by (simp add: refTime_def example_booking_def)
  show ?thesis
    using presence_buckets [OF a, of 7200000] presence_buckets [OF a, of 7199999]
      presence_buckets [OF a, of 86400000]
    by simp
qed

subsection \<open>Failure of a read\<close>

text \<open>
  C7, as the claim states it, fails: on the pass that the effect makes when the
  component is mounted, a bookings text that does not parse leaves the effect with a
  SyntaxError before the interval is set; no timer is scheduled. On a firing of the
  interval too the failure is an exception that leaves the callback, not a warning.
\<close>

theorem malformed_read_counterexample:
  "effect \<lparr>mindcare_bookings = Unparsable, mindcare_registered_users = Absent\<rparr>
       (Some example_user) (steady_clock 0) initial_runtime
     = (Some SyntaxError, initial_runtime)
   \<and> interval initial_runtime = None
   \<and> fst (interval_callback \<lparr>mindcare_bookings = Unparsable, mindcare_registered_users = Absent\<rparr>
             (Some example_user) (steady_clock 0) initial_runtime)
     = Some SyntaxError"
  by (simp add: effect_def interval_callback_def loadConversations_def parse_item_def
        initial_runtime_def)

text \<open>
  C7, amended: if either stored text does not parse, the pass throws a SyntaxError
  before \<open>setConversations\<close>, so the conversations held are unchanged. Nothing catches
  the exception or reports it as a warning. A firing of the interval and a
  notification leave the registrations as they are, so the timer goes on; the
  effect itself is left before it registers the interval and the listeners.
\<close>

theorem malformed_read_throws:
  assumes "mindcare_bookings st = Unparsable \<or> mindcare_registered_users st = Unparsable"
  shows "loadConversations st user clock pg = (Some SyntaxError, pg)
       \<and> interval_callback st user clock rt = (Some SyntaxError, rt)
       \<and> handleStorageChange st user clock rt = (Some SyntaxError, rt)
       \<and> effect st user clock rt = (Some SyntaxError, rt)"
proof -
  have "loadConversations st user clock p = (Some SyntaxError, p)" for p
    using assms
    by (auto simp: loadConversations_def parse_item_def split: item.splits)
  then show ?thesis
    by (simp add: interval_callback_def handleStorageChange_def effect_def)
qed

theorem malformed_read_throws_witness:
  "interval_callback \<lparr>mindcare_bookings = Unparsable, mindcare_registered_users = Absent\<rparr>
       (Some example_user) (steady_clock 0)
       (initial_runtime\<lparr>interval := Some 10000\<rparr>)
     = (Some SyntaxError, initial_runtime\<lparr>interval := Some 10000\<rparr>)"
proof -
  have a: "mindcare_bookings \<lparr>mindcare_bookings = Unparsable, mindcare_registered_users = Absent\<rparr>
             = Unparsable
           \<or> mindcare_registered_users
               \<lparr>mindcare_bookings = Unparsable, mindcare_registered_users = Absent\<rparr> = Unparsable"
    by simp
  show ?thesis using malformed_read_throws [OF a] by simp
qed

subsection \<open>Rendering\<close>

text \<open>
  C10: rendering the component throws a ReferenceError for \<open>useEffect\<close>, which the
  module does not import, whatever the storage, the user and the clock. The effect
  never runs: the conversations stay the initial empty list, no interval and no
  listener is registered, and no cleanup is handed to React.
\<close>

theorem render_throws_ReferenceError:
  "MessagesPage st user clock = (Some (ReferenceError ''useEffect''), initial_runtime)
   \<and> conversations (rt_page (snd (MessagesPage st user clock))) = []
   \<and> interval (snd (MessagesPage st user clock)) = None
   \<and> listeners (snd (MessagesPage st user clock)) = []
   \<and> cleanup (snd (MessagesPage st user clock)) = False"
proof -
  have "first_unresolved hook_calls = Some (ReferenceError ''useEffect'')"
    by (simp add: hook_calls_def resolve_def module_scope_def host_globals_def)
  then show ?thesis
    by (simp add: MessagesPage_def initial_runtime_def)
qed

subsection \<open>The derivation, characterised\<close>

text \<open>
  The sort keeps the elements; its first element is the first booking of the list
  among those with the greatest time.
\<close>

lemma set_sort_insert: "set (sort_insert x ys) = insert x (set ys)"
  by (induction ys) auto

lemma set_sort_js: "set (sort_js xs) = set xs"
  by (induction xs) (auto simp: set_sort_insert)

lemma latestBooking_Some:
  assumes "b \<in> set tb"
  shows "\<exists>l. latestBooking tb (b_patientId b) = Some l"
proof -
  have "b \<in> set (sort_js (patientBookings tb (b_patientId b)))"
    using assms by (simp add: set_sort_js patientBookings_def)
  then show ?thesis
    by (cases "sort_js (patientBookings tb (b_patientId b))")
       (auto simp: latestBooking_def)
qed

lemma forEach_char:
  assumes "set bs \<subseteq> set tb"
  shows "forEach (forEach_body user us tb clock) (pm, n) bs =
           Inr (pm @ map (\<lambda>(i, b). (b_patientId b, conv_of user us tb clock (n + 5 * i) b))
                       (enumerate 0 (firsts (map fst pm) bs)),
                n + 5 * length (firsts (map fst pm) bs))"
  using assms
proof (induction bs arbitrary: pm n)
  case Nil
  then show ?case by simp
next
  case (Cons b bs)
  then have sub: "set bs \<subseteq> set tb" and mem: "b \<in> set tb" by auto
  show ?case
  proof (cases "b_patientId b \<in> set (map fst pm)")
    case True
    then show ?thesis using Cons.IH[OF sub, of pm n]
      by (simp add: forEach_body_def)
  next
    case False
    obtain l where l: "latestBooking tb (b_patientId b) = Some l"
      using latestBooking_Some[OF mem] by blast
    let ?c = "newConversation user us clock n b l"
    have step: "forEach_body user us tb clock (pm, n) b = Inr (pm @ [(b_patientId b, ?c)], n + 5)"
      using False l by (simp add: forEach_body_def)
    have c: "conv_of user us tb clock n b = ?c" by (simp add: conv_of_def l)
    have shift: "map (\<lambda>(i, b). (b_patientId b, conv_of user us tb clock (n + 5 * i) b)) (enumerate (Suc 0) xs)
               = map (\<lambda>(i, b). (b_patientId b, conv_of user us tb clock (n + 5 + 5 * i) b)) (enumerate 0 xs)" for xs
      by (simp add: enumerate_Suc_eq split_def add.assoc)
    show ?thesis
      using False Cons.IH[OF sub, of "pm @ [(b_patientId b, ?c)]" "n + 5"]
      by (simp add: step c shift)
  qed
qed

lemma firsts_ids: "set (map b_patientId (firsts seen bs)) = b_patientId ` set bs - set seen"
  by (induction bs arbitrary: seen) auto

lemma firsts_not_seen: "b \<in> set (firsts seen bs) \<Longrightarrow> b_patientId b \<notin> set seen"
proof -
  assume "b \<in> set (firsts seen bs)"
  then have "b_patientId b \<in> set (map b_patientId (firsts seen bs))" by simp
  then show ?thesis unfolding firsts_ids by simp
qed

lemma firsts_distinct: "distinct (map b_patientId (firsts seen bs))"
proof (induction bs arbitrary: seen)
  case Nil then show ?case by simp
next
  case (Cons a bs)
  have "b_patientId a \<notin> b_patientId ` set (firsts (seen @ [b_patientId a]) bs)"
  proof
    assume "b_patientId a \<in> b_patientId ` set (firsts (seen @ [b_patientId a]) bs)"
    then obtain x where x: "x \<in> set (firsts (seen @ [b_patientId a]) bs)"
      and eq: "b_patientId a = b_patientId x" by blast
    from firsts_not_seen[OF x] eq show False by simp
  qed
  then show ?case using Cons.IH by simp
qed









lemma map_enumerate_snd: "map (\<lambda>(i, b). f b) (enumerate n xs) = map f xs"
  by (induction xs arbitrary: n) auto

lemma conv_of_id [simp]: "c_id (conv_of user us tb clock n b) = b_patientId b"
  by (simp add: conv_of_def newConversation_def Let_def split_def)

lemma patientMap_char:
  "patientMap user us allBookings clock =
     Inr (map (\<lambda>c. (c_id c, c)) (derived user us allBookings clock))"
proof -
  let ?tb = "therapistBookings user allBookings"
  have "set ?tb \<subseteq> set ?tb" by simp
  from forEach_char[OF this, of user us clock "[]" 0]
  have "forEach (forEach_body user us ?tb clock) ([], 0) ?tb =
          Inr (map (\<lambda>(i, b). (b_patientId b, conv_of user us ?tb clock (5 * i) b))
                       (enumerate 0 (firsts [] ?tb)),
               5 * length (firsts [] ?tb))"
    by simp
  then show ?thesis
    by (simp add: patientMap_def derived_def Let_def split_def comp_def)
qed

lemma loadConversations_char:
  "loadConversations \<lparr>mindcare_bookings = Parsed allBookings, mindcare_registered_users = Parsed us\<rparr>
       user clock pg
     = (None, pg\<lparr>conversations := derived user us allBookings clock\<rparr>)"
  by (simp add: loadConversations_def parse_item_def patientMap_char comp_def)

lemma derived_ids:
  "map c_id (derived user us allBookings clock)
     = map b_patientId (firsts [] (therapistBookings user allBookings))"
proof -
  let ?tb = "therapistBookings user allBookings"
  have "map c_id (derived user us allBookings clock)
          = map (\<lambda>(i, b). b_patientId b) (enumerate 0 (firsts [] ?tb))"
    by (simp add: derived_def Let_def split_def comp_def)
  then show ?thesis by (simp only: map_enumerate_snd)
qed

lemma derived_member:
  assumes "c \<in> set (derived user us allBookings clock)"
  shows "\<exists>i b. b \<in> set (firsts [] (therapistBookings user allBookings))
            \<and> c = conv_of user us (therapistBookings user allBookings) clock (5 * i) b"
proof -
  let ?fs = "firsts [] (therapistBookings user allBookings)"
  from assms obtain i where i: "i < length ?fs"
    and c: "c = conv_of user us (therapistBookings user allBookings) clock (5 * i) (?fs ! i)"
    by (auto simp: derived_def Let_def in_set_enumerate_eq)
  from i have "?fs ! i \<in> set ?fs" by (rule nth_mem)
  with c show ?thesis by blast
qed


text \<open>The example pass, evaluated.\<close>

lemma example_therapistBookings:
  "therapistBookings (Some example_user) example_bookings = example_bookings"
  by (simp add: therapistBookings_def example_bookings_def example_booking_def example_user_def)

lemma example_group:
  "patientBookings example_bookings ''P1'' =
     [example_booking ''P1'' ''Ann'' ''confirmed'' 100,
      example_booking ''P1'' ''Anna'' ''pending_confirmation'' 200]"
  by (simp add: patientBookings_def example_bookings_def example_booking_def)

lemma example_latest:
  "latestBooking example_bookings ''P1'' = Some (example_booking ''P1'' ''Anna'' ''pending_confirmation'' 200)"
  by (simp add: latestBooking_def example_group compareBookings_def refTime_def example_booking_def)

lemma example_firsts:
  "firsts [] example_bookings =
     [example_booking ''P1'' ''Ann'' ''confirmed'' 100, example_booking ''P2'' ''Bob'' ''completed'' 150]"
  by (simp add: example_bookings_def example_booking_def)

lemma example_pass_eq:
  "example_pass clock =
     [conv_of (Some example_user) [] example_bookings clock 0 (example_booking ''P1'' ''Ann'' ''confirmed'' 100),
      conv_of (Some example_user) [] example_bookings clock 5 (example_booking ''P2'' ''Bob'' ''completed'' 150)]"
  by (simp add: example_pass_def loadConversations_char derived_def example_therapistBookings example_firsts)


subsection \<open>One conversation for each patient\<close>

text \<open>
  C3: for every list of bookings and of users and every identity, the pass returns
  normally with a list of conversations whose identifiers are distinct and are
  exactly the patient identifiers of the bookings that match the identity, a booking
  matching when its therapist name equals the name of the identity or its therapist
  identifier equals the identifier of the identity. So there is exactly one
  conversation for each such patient, its identifier (and \<open>patientId\<close>) is that
  patient identifier, and a patient without a matching booking has none.
\<close>

theorem one_conversation_per_patient:
  "\<exists>convs.
     loadConversations
         \<lparr>mindcare_bookings = Parsed allBookings, mindcare_registered_users = Parsed registeredUsers\<rparr>
         user clock pg
       = (None, pg\<lparr>conversations := convs\<rparr>)
     \<and> distinct (map c_id convs)
     \<and> set (map c_id convs)
         = b_patientId ` {b \<in> set allBookings.
                            b_therapistName b = map_option a_name user
                          \<or> b_therapistId b = map_option a_id user}
     \<and> length convs
         = card (b_patientId ` {b \<in> set allBookings.
                                  b_therapistName b = map_option a_name user
                                \<or> b_therapistId b = map_option a_id user})
     \<and> map patientId convs = map c_id convs"
proof -
  let ?convs = "derived user registeredUsers allBookings clock"
  let ?tb = "therapistBookings user allBookings"
  let ?M = "{b \<in> set allBookings.
               b_therapistName b = map_option a_name user \<or> b_therapistId b = map_option a_id user}"
  have tb: "set ?tb = ?M" by (auto simp: therapistBookings_def)
  have ids: "map c_id ?convs = map b_patientId (firsts [] ?tb)" by (rule derived_ids)
  have d: "distinct (map c_id ?convs)" unfolding ids by (rule firsts_distinct)
  have s: "set (map c_id ?convs) = b_patientId ` ?M"
    unfolding ids firsts_ids tb by simp
  have "length ?convs = length (map c_id ?convs)" by simp
  also have "\<dots> = card (set (map c_id ?convs))" using d by (simp only: distinct_card)
  finally have l: "length ?convs = card (b_patientId ` ?M)" unfolding s .
  have p: "map patientId ?convs = map c_id ?convs"
    by (simp add: derived_def Let_def split_def conv_of_def newConversation_def)
  show ?thesis using loadConversations_char d s l p by blast
qed

subsection \<open>The latest booking decides the last message\<close>



subsection \<open>First booking and latest booking\<close>




subsection \<open>Last message and its time\<close>

text \<open>
  In every conversation of a pass \<open>lastMessage\<close> is the content of the last seed
  message; the timestamp of that message and \<open>lastMessageTime\<close> come from two
  successive reads of the clock (lines 112 and 124).
\<close>

lemma derived_last_message:
  assumes "c \<in> set (derived user us allBookings clock)"
  shows "\<exists>n. messages c \<noteq> []
           \<and> lastMessage c = content (last (messages c))
           \<and> timestamp (last (messages c)) = clock (n + 3) - 2 * 60 * 60 * 1000
           \<and> lastMessageTime c = clock (n + 4) - 2 * 60 * 60 * 1000"
proof -
  from derived_member[OF assms] obtain i b where
    "c = conv_of user us (therapistBookings user allBookings) clock (5 * i) b" by blast
  then have "messages c \<noteq> []
           \<and> lastMessage c = content (last (messages c))
           \<and> timestamp (last (messages c)) = clock (5 * i + 3) - 2 * 60 * 60 * 1000
           \<and> lastMessageTime c = clock (5 * i + 4) - 2 * 60 * 60 * 1000"
    by (simp add: conv_of_def newConversation_def Let_def split_def)
  then show ?thesis by blast
qed

text \<open>
  C8 at a failing input: with a clock that advances by one millisecond at each read,
  the first conversation of the example pass has a \<open>lastMessageTime\<close> one millisecond
  after the timestamp of its last message, whose content is \<open>lastMessage\<close>.
\<close>

theorem lastMessageTime_drifts:
  "lastMessageTime (hd (example_pass (ticking_clock 7200300))) = 304
   \<and> timestamp (last (messages (hd (example_pass (ticking_clock 7200300))))) = 303
   \<and> content (last (messages (hd (example_pass (ticking_clock 7200300)))))
       = lastMessage (hd (example_pass (ticking_clock 7200300)))"
  by (simp add: example_pass_eq conv_of_def newConversation_def Let_def split_def ticking_clock_def)

subsection \<open>Searching\<close>








end
